theory Spec2Isabelle
  imports Main "HOL-Library.Word"
begin

section \<open>The OTP input component (src/components/OtpInput.tsx)\<close>

text \<open>
  The component keeps one piece of React state, the array \<^verbatim>\<open>otp\<close> of slot strings, and
  three event handlers bound to every rendered input: \<^verbatim>\<open>handleChange\<close>,
  \<^verbatim>\<open>handleClick\<close> and \<^verbatim>\<open>handleKeyDown\<close>. Each handler is modelled as a function of the
  state of the current render and of the event; it returns the calls it makes on the
  outside world (the completion callback and the DOM focus and selection methods), in
  the order of the source, and \<^verbatim>\<open>handleChange\<close> also returns the array passed to
  \<^verbatim>\<open>setOtp\<close>.
\<close>

subsection \<open>JavaScript strings and the built-ins the handlers call\<close>

text \<open>
  A JavaScript string is a sequence of UTF-16 code units; \<^verbatim>\<open>length\<close> and
  \<^verbatim>\<open>substring\<close> count code units.
\<close>

type_synonym code_unit = "16 word"
type_synonym jsstring = "code_unit list"

text \<open>An ASCII literal of the source, written as an Isabelle string.\<close>

definition js :: "string \<Rightarrow> jsstring" where
  "js s = map of_char s"

text \<open>
  \<^verbatim>\<open>s.substring(start)\<close>: the start index is clamped into \<open>0 .. s.length\<close>
  (so the \<open>-1\<close> that \<^verbatim>\<open>value.length - 1\<close> gives on the empty string reads as 0), and
  the result runs to the end of the string.
\<close>

definition substring :: "jsstring \<Rightarrow> int \<Rightarrow> jsstring" where
  "substring s start = drop (nat (min (max start 0) (int (length s)))) s"

text \<open>\<^verbatim>\<open>arr.join("")\<close> on an array of strings.\<close>

definition join :: "jsstring list \<Rightarrow> jsstring" where
  "join arr = concat arr"

text \<open>
  \<^verbatim>\<open>arr.findIndex(p)\<close>: the index of the first element satisfying \<open>p\<close>, and
  \<open>-1\<close> when there is none.
\<close>

fun findIndex :: "('a \<Rightarrow> bool) \<Rightarrow> 'a list \<Rightarrow> int" where
  "findIndex p [] = - 1"
| "findIndex p (x # xs) =
     (if p x then 0
      else (let r = findIndex p xs in if r = - 1 then - 1 else r + 1))"

text \<open>
  \<^verbatim>\<open>!arr[k]\<close> on an array of strings: the empty string is falsy, and so is the
  \<^verbatim>\<open>undefined\<close> that a read past the end gives.
\<close>

definition falsy_at :: "jsstring list \<Rightarrow> nat \<Rightarrow> bool" where
  "falsy_at arr k \<longleftrightarrow> (if k < length arr then arr ! k = [] else True)"

text \<open>
  \<^verbatim>\<open>arr[k] = v\<close> on a copy of the array. JavaScript extends the array when \<open>k\<close> is
  past the end and leaves holes in between; a hole reads as \<^verbatim>\<open>undefined\<close>, which
  \<^verbatim>\<open>join\<close> prints as the empty string and \<^verbatim>\<open>!\<close> treats like the empty string, so
  the holes are written as empty strings here. The rendered inputs only ever pass an
  index below the array's length.
\<close>

definition array_set :: "jsstring list \<Rightarrow> nat \<Rightarrow> jsstring \<Rightarrow> jsstring list" where
  "array_set arr k v =
     (if k < length arr then arr[k := v]
      else arr @ replicate (k - length arr) [] @ [v])"

subsection \<open>\<^verbatim>\<open>isNaN(Number(value))\<close>\<close>

text \<open>
  \<^verbatim>\<open>Number\<close> applied to a string is ECMAScript's StringToNumber: the string is
  parsed as a StringNumericLiteral, and the result is NaN exactly when it does not
  match that grammar (a matching literal gives a finite number or an infinity).
  Leading and trailing white space and line terminators are skipped; what remains is
  empty (the number 0), a signed decimal literal (digits with an optional fraction
  and exponent, or \<^verbatim>\<open>Infinity\<close>), or an unsigned binary, octal or hexadecimal integer
  literal. The functions below recognise the grammar.
\<close>

definition isStrWhiteSpaceChar :: "code_unit \<Rightarrow> bool" where
  "isStrWhiteSpaceChar c \<longleftrightarrow>
     c \<in> {0x0009, 0x000A, 0x000B, 0x000C, 0x000D, 0x0020, 0x00A0, 0x1680,
          0x2028, 0x2029, 0x202F, 0x205F, 0x3000, 0xFEFF}
     \<or> (0x2000 \<le> c \<and> c \<le> 0x200A)"

definition trim :: "jsstring \<Rightarrow> jsstring" where
  "trim s = rev (dropWhile isStrWhiteSpaceChar (rev (dropWhile isStrWhiteSpaceChar s)))"

definition isDecimalDigit :: "code_unit \<Rightarrow> bool" where
  "isDecimalDigit c \<longleftrightarrow> 0x30 \<le> c \<and> c \<le> 0x39"

definition isBinaryDigit :: "code_unit \<Rightarrow> bool" where
  "isBinaryDigit c \<longleftrightarrow> c = 0x30 \<or> c = 0x31"

definition isOctalDigit :: "code_unit \<Rightarrow> bool" where
  "isOctalDigit c \<longleftrightarrow> 0x30 \<le> c \<and> c \<le> 0x37"

definition isHexDigit :: "code_unit \<Rightarrow> bool" where
  "isHexDigit c \<longleftrightarrow>
     isDecimalDigit c \<or> (0x41 \<le> c \<and> c \<le> 0x46) \<or> (0x61 \<le> c \<and> c \<le> 0x66)"

text \<open>One or more digits of the given kind, and nothing else.\<close>

definition isDigits :: "(code_unit \<Rightarrow> bool) \<Rightarrow> jsstring \<Rightarrow> bool" where
  "isDigits d s \<longleftrightarrow> s \<noteq> [] \<and> list_all d s"

text \<open>SignedInteger: decimal digits with an optional sign.\<close>

fun isSignedInteger :: "jsstring \<Rightarrow> bool" where
  "isSignedInteger [] = False"
| "isSignedInteger (c # cs) =
     (if c = 0x2B \<or> c = 0x2D then isDigits isDecimalDigit cs
      else isDigits isDecimalDigit (c # cs))"

text \<open>An optional ExponentPart: nothing, or \<open>e\<close> or \<open>E\<close> and a SignedInteger.\<close>

fun isExponentPartOpt :: "jsstring \<Rightarrow> bool" where
  "isExponentPartOpt [] = True"
| "isExponentPartOpt (c # cs) = ((c = 0x65 \<or> c = 0x45) \<and> isSignedInteger cs)"

text \<open>
  StrUnsignedDecimalLiteral: \<^verbatim>\<open>Infinity\<close>, or digits, an optional point with
  optional digits after it, and an optional exponent, with a digit on at least one
  side of the point.
\<close>

definition isStrUnsignedDecimalLiteral :: "jsstring \<Rightarrow> bool" where
  "isStrUnsignedDecimalLiteral s \<longleftrightarrow>
     s = js ''Infinity'' \<or>
     (let ip = takeWhile isDecimalDigit s; r = dropWhile isDecimalDigit s in
      case r of
        [] \<Rightarrow> ip \<noteq> []
      | c # r' \<Rightarrow>
          if c = 0x2E then
            (let fp = takeWhile isDecimalDigit r'; r'' = dropWhile isDecimalDigit r' in
             (ip \<noteq> [] \<or> fp \<noteq> []) \<and> isExponentPartOpt r'')
          else ip \<noteq> [] \<and> isExponentPartOpt r)"

fun isStrDecimalLiteral :: "jsstring \<Rightarrow> bool" where
  "isStrDecimalLiteral [] = False"
| "isStrDecimalLiteral (c # cs) =
     (if c = 0x2B \<or> c = 0x2D then isStrUnsignedDecimalLiteral cs
      else isStrUnsignedDecimalLiteral (c # cs))"

text \<open>NonDecimalIntegerLiteral: \<open>0b\<close>, \<open>0o\<close> or \<open>0x\<close> (either case) and digits.\<close>

fun isNonDecimalIntegerLiteral :: "jsstring \<Rightarrow> bool" where
  "isNonDecimalIntegerLiteral (z # p # ds) =
     (z = 0x30 \<and>
      ((p = 0x62 \<or> p = 0x42) \<and> isDigits isBinaryDigit ds \<or>
       (p = 0x6F \<or> p = 0x4F) \<and> isDigits isOctalDigit ds \<or>
       (p = 0x78 \<or> p = 0x58) \<and> isDigits isHexDigit ds))"
| "isNonDecimalIntegerLiteral _ = False"

definition isStringNumericLiteral :: "jsstring \<Rightarrow> bool" where
  "isStringNumericLiteral s \<longleftrightarrow>
     (let t = trim s in
      t = [] \<or> isStrDecimalLiteral t \<or> isNonDecimalIntegerLiteral t)"

text \<open>The test of the source, \<^verbatim>\<open>isNaN(Number(value))\<close>.\<close>

definition isNaN_Number :: "jsstring \<Rightarrow> bool" where
  "isNaN_Number v \<longleftrightarrow> \<not> isStringNumericLiteral v"

subsection \<open>Effects\<close>

text \<open>
  The calls a handler makes: \<^verbatim>\<open>onOtpSubmit(s)\<close>, \<^verbatim>\<open>inputRefs.current[k].focus()\<close> and
  \<^verbatim>\<open>inputRefs.current[k].setSelectionRange(a, b)\<close>.
\<close>

datatype effect =
    OnOtpSubmit jsstring
  | Focus nat
  | SetSelectionRange nat nat nat

text \<open>
  The render stores one ref per element of \<^verbatim>\<open>otp\<close>, so \<^verbatim>\<open>inputRefs.current[k]\<close> is an
  input element for \<open>k\<close> below the number \<open>n\<close> of rendered inputs and
  \<^verbatim>\<open>undefined\<close> otherwise, where the optional call \<^verbatim>\<open>?.\<close> does nothing.
\<close>

definition focus_ref :: "nat \<Rightarrow> nat \<Rightarrow> effect list" where
  "focus_ref n k = (if k < n then [Focus k] else [])"

definition select_ref :: "nat \<Rightarrow> nat \<Rightarrow> nat \<Rightarrow> nat \<Rightarrow> effect list" where
  "select_ref n k a b = (if k < n then [SetSelectionRange k a b] else [])"

subsection \<open>The handlers\<close>

text \<open>
  \<open>len\<close> is the prop \<^verbatim>\<open>length\<close>, \<open>otp\<close> the state of the current render. The result
  is the state after the handler (\<^verbatim>\<open>newOtp\<close> when \<^verbatim>\<open>setOtp\<close> is called, \<open>otp\<close> on the
  early return) and the calls made.
\<close>

definition handleChange ::
  "nat \<Rightarrow> jsstring list \<Rightarrow> nat \<Rightarrow> jsstring \<Rightarrow> jsstring list \<times> effect list" where
  "handleChange len otp index v =
     (if isNaN_Number v then (otp, [])
      else
        (let newOtp = array_set otp index (substring v (int (length v) - 1));
             combinedOtp = join newOtp
         in (newOtp,
             (if length combinedOtp = len then [OnOtpSubmit combinedOtp] else []) @
             (if v \<noteq> [] \<and> int index < int len - 1
              then focus_ref (length otp) (index + 1) else []) @
             (if v = [] \<and> index > 0
              then focus_ref (length otp) (index - 1) else []))))"

definition handleClick :: "jsstring list \<Rightarrow> nat \<Rightarrow> effect list" where
  "handleClick otp index =
     select_ref (length otp) index 1 1 @
     (if index > 0 \<and> falsy_at otp (index - 1) then
        (let firstEmptyIndex = findIndex (\<lambda>val. val = []) otp in
         if firstEmptyIndex \<noteq> - 1 then focus_ref (length otp) (nat firstEmptyIndex)
         else [])
      else [])"

definition handleKeyDown :: "jsstring list \<Rightarrow> nat \<Rightarrow> jsstring \<Rightarrow> effect list" where
  "handleKeyDown otp index key =
     (if key = js ''Backspace'' \<and> falsy_at otp index \<and> index > 0
      then focus_ref (length otp) (index - 1) else [])"

text \<open>
  The mount effect: \<^verbatim>\<open>if (inputRefs.current[0]) inputRefs.current[0].focus()\<close>.
\<close>

definition mount_effect :: "nat \<Rightarrow> effect list" where
  "mount_effect n = focus_ref n 0"

subsection \<open>The component as a transition system\<close>

text \<open>
  \<^verbatim>\<open>useState(Array(length).fill(""))\<close>: the state of the first render.
\<close>

definition initial_otp :: "nat \<Rightarrow> jsstring list" where
  "initial_otp len = replicate len []"

text \<open>
  The events the rendered inputs deliver: \<^verbatim>\<open>onChange\<close> with the input's new text,
  \<^verbatim>\<open>onClick\<close>, and \<^verbatim>\<open>onKeyDown\<close> with the key's name. Each carries the index of the
  input it comes from.
\<close>

datatype event =
    Change nat jsstring
  | Click nat
  | KeyDown nat jsstring

fun event_index :: "event \<Rightarrow> nat" where
  "event_index (Change i v) = i"
| "event_index (Click i) = i"
| "event_index (KeyDown i k) = i"

fun step :: "nat \<Rightarrow> jsstring list \<Rightarrow> event \<Rightarrow> jsstring list \<times> effect list" where
  "step len otp (Change i v) = handleChange len otp i v"
| "step len otp (Click i) = (otp, handleClick otp i)"
| "step len otp (KeyDown i k) = (otp, handleKeyDown otp i k)"

text \<open>
  The states the component can be in: the render maps over \<^verbatim>\<open>otp\<close>, so an event
  always comes from an index below its length.
\<close>

inductive reachable :: "nat \<Rightarrow> jsstring list \<Rightarrow> bool" for len :: nat where
  mount: "reachable len (initial_otp len)"
| event: "reachable len otp \<Longrightarrow> event_index e < length otp \<Longrightarrow>
          reachable len (fst (step len otp e))"

text \<open>
  What every reachable state satisfies: there are \<open>len\<close> slots, and each holds at
  most one code unit.
\<close>

definition slots_inv :: "nat \<Rightarrow> jsstring list \<Rightarrow> bool" where
  "slots_inv len otp \<longleftrightarrow> length otp = len \<and> list_all (\<lambda>s. length s \<le> 1) otp"

text \<open>What the data model asks of a slot: empty, or one decimal digit.\<close>

fun slot_ok :: "jsstring \<Rightarrow> bool" where
  "slot_ok [] = True"
| "slot_ok [c] = isDecimalDigit c"
| "slot_ok _ = False"

text \<open>
  What the data model calls a numeric text: nothing but the digits 0 to 9. The empty
  text counts as numeric (it stands for a deletion).
\<close>

definition numeric_text :: "jsstring \<Rightarrow> bool" where
  "numeric_text v \<longleftrightarrow> list_all isDecimalDigit v"

text \<open>
  Reading the effects: which calls are focus calls, which are calls of the completion
  callback, and where the DOM focus is after a list of calls.
\<close>

fun is_Focus :: "effect \<Rightarrow> bool" where
  "is_Focus (Focus k) = True"
| "is_Focus _ = False"

fun is_OnOtpSubmit :: "effect \<Rightarrow> bool" where
  "is_OnOtpSubmit (OnOtpSubmit s) = True"
| "is_OnOtpSubmit _ = False"

fun focus_after :: "nat option \<Rightarrow> effect list \<Rightarrow> nat option" where
  "focus_after f [] = f"
| "focus_after f (Focus k # es) = focus_after (Some k) es"
| "focus_after f (_ # es) = focus_after f es"

section \<open>Properties of the built-ins\<close>

lemma substring_last:
  "substring v (int (length v) - 1) = (if v = [] then [] else [last v])"
proof (cases v rule: rev_cases)
  case Nil
  then show ?thesis by (simp add: substring_def)
next
  case (snoc ys y)
  then show ?thesis by (simp add: substring_def)
qed

lemma length_substring_last: "length (substring v (int (length v) - 1)) \<le> 1"
  by (simp add: substring_last)

lemma length_array_set: "k < length arr \<Longrightarrow> length (array_set arr k v) = length arr"
  by (simp add: array_set_def)

lemma array_set_in_range: "k < length arr \<Longrightarrow> array_set arr k v = arr[k := v]"
  by (simp add: array_set_def)

lemma nth_array_set_same: "array_set arr k v ! k = v"
  by (simp add: array_set_def nth_append)

lemma nth_array_set_other:
  "j \<noteq> k \<Longrightarrow> j < length arr \<Longrightarrow> array_set arr k v ! j = arr ! j"
  by (simp add: array_set_def nth_append)

lemma findIndex_lower: "- 1 \<le> findIndex p xs"
  by (induction xs) (auto simp: Let_def)

lemma findIndex_none: "findIndex p xs = - 1 \<longleftrightarrow> \<not> list_ex p xs"
proof (induction xs)
  case Nil
  then show ?case by simp
next
  case (Cons x xs)
  have "- 1 \<le> findIndex p xs" by (rule findIndex_lower)
  with Cons show ?case by (auto simp: Let_def)
qed

lemma findIndex_first:
  assumes "findIndex p xs \<noteq> - 1"
  shows "0 \<le> findIndex p xs \<and> nat (findIndex p xs) < length xs \<and>
         p (xs ! nat (findIndex p xs)) \<and> (\<forall>j < nat (findIndex p xs). \<not> p (xs ! j))"
  using assms
proof (induction xs)
  case Nil
  then show ?case by simp
next
  case (Cons x xs)
  show ?case
  proof (cases "p x")
    case True
    then show ?thesis by simp
  next
    case False
    with Cons.prems have ne: "findIndex p xs \<noteq> - 1"
      by (auto simp: Let_def split: if_splits)
    from Cons.IH [OF ne] have ih:
      "0 \<le> findIndex p xs" "nat (findIndex p xs) < length xs"
      "p (xs ! nat (findIndex p xs))" "\<forall>j < nat (findIndex p xs). \<not> p (xs ! j)"
      by simp_all
    from False ne have eq: "findIndex p (x # xs) = findIndex p xs + 1"
      by (simp add: Let_def)
    from ih(1) have n: "nat (findIndex p xs + 1) = Suc (nat (findIndex p xs))"
      by simp
    show ?thesis
      unfolding eq n using ih False
      by (auto simp: less_Suc_eq_0_disj)
  qed
qed

lemma findIndex_upper:
  assumes "k < length xs" and "p (xs ! k)"
  shows "findIndex p xs \<noteq> - 1 \<and> nat (findIndex p xs) \<le> k"
proof -
  from assms have "list_ex p xs"
    by (auto simp: list_ex_iff)
  then have ne: "findIndex p xs \<noteq> - 1"
    by (simp add: findIndex_none)
  from findIndex_first [OF ne] have "\<forall>j < nat (findIndex p xs). \<not> p (xs ! j)"
    by simp
  with assms(2) have "\<not> k < nat (findIndex p xs)"
    by blast
  with ne show ?thesis by simp
qed

lemma length_concat_le:
  "list_all (\<lambda>s. length s \<le> 1) xs \<Longrightarrow> length (concat xs) \<le> length xs"
  by (induction xs) auto

lemma concat_full_iff:
  "list_all (\<lambda>s. length s \<le> 1) xs \<Longrightarrow>
   length (concat xs) = length xs \<longleftrightarrow> list_all (\<lambda>s. s \<noteq> []) xs"
proof (induction xs)
  case Nil
  then show ?case by simp
next
  case (Cons x xs)
  then have le: "length (concat xs) \<le> length xs"
    by (simp add: length_concat_le)
  from Cons.prems have "length x \<le> 1"
    by simp
  then have "length x = 0 \<or> length x = 1"
    by arith
  then show ?case
  proof
    assume "length x = 0"
    with le show ?thesis by simp
  next
    assume one: "length x = 1"
    then have "x \<noteq> []" by auto
    with one Cons show ?thesis by simp
  qed
qed

section \<open>The invariant of the reachable states\<close>

lemma slots_inv_initial: "slots_inv len (initial_otp len)"
  by (simp add: slots_inv_def initial_otp_def list_all_length)

lemma slots_inv_handleChange:
  assumes "slots_inv len otp" and "index < length otp"
  shows "slots_inv len (fst (handleChange len otp index v))"
proof (cases "isNaN_Number v")
  case True
  with assms(1) show ?thesis by (simp add: handleChange_def)
next
  case False
  have "list_all (\<lambda>s. length s \<le> 1) (otp[index := substring v (int (length v) - 1)])"
    using assms length_substring_last [of v]
    by (auto simp: slots_inv_def list_all_length nth_list_update)
  with False assms show ?thesis
    by (simp add: handleChange_def Let_def array_set_in_range slots_inv_def)
qed

lemma slots_inv_step:
  assumes "slots_inv len otp" and "event_index e < length otp"
  shows "slots_inv len (fst (step len otp e))"
  using assms by (cases e) (simp_all add: slots_inv_handleChange)

lemma reachable_slots_inv: "reachable len otp \<Longrightarrow> slots_inv len otp"
  by (induction rule: reachable.induct) (simp_all add: slots_inv_initial slots_inv_step)

section \<open>What a single keystroke can put into a slot\<close>

text \<open>
  A text of one code unit passes the test of \<^verbatim>\<open>handleChange\<close> exactly when the unit
  is a decimal digit or a white space character (which \<^verbatim>\<open>Number\<close> skips, reading 0).
\<close>

lemma single_unit_numeric:
  "\<not> isNaN_Number [c] \<longleftrightarrow> isDecimalDigit c \<or> isStrWhiteSpaceChar c"
proof (cases "isStrWhiteSpaceChar c")
  case True
  then show ?thesis
    by (simp add: isNaN_Number_def isStringNumericLiteral_def trim_def)
next
  case False
  then have t: "trim [c] = [c]"
    by (simp add: trim_def)
  have inf: "[c] \<noteq> js ''Infinity''"
    by (simp add: js_def)
  show ?thesis
  proof (cases "isDecimalDigit c")
    case True
    then have "c \<noteq> 0x2B" and "c \<noteq> 0x2D"
      by (auto simp: isDecimalDigit_def)
    with True False show ?thesis
      by (simp add: isNaN_Number_def isStringNumericLiteral_def t
          isStrUnsignedDecimalLiteral_def)
  next
    case nd: False
    have "\<not> isStrUnsignedDecimalLiteral [c]"
      using nd inf by (simp add: isStrUnsignedDecimalLiteral_def)
    moreover have "\<not> isStrUnsignedDecimalLiteral []"
      by (simp add: isStrUnsignedDecimalLiteral_def js_def)
    ultimately have "\<not> isStrDecimalLiteral [c]"
      by simp
    with nd False show ?thesis
      by (simp add: isNaN_Number_def isStringNumericLiteral_def t)
  qed
qed

section \<open>The value-change handler\<close>

text \<open>
  C4. On an accepted value change at slot \<open>index\<close>, the value written into that slot
  is the last character of the new text, and the empty string when the text is empty.
\<close>

theorem effective_value_is_last_character:
  assumes "\<not> isNaN_Number v"
  shows "fst (handleChange len otp index v) ! index = (if v = [] then [] else [last v])"
  using assms
  by (simp add: handleChange_def Let_def nth_array_set_same substring_last)

theorem effective_value_is_last_character_witness:
  "\<not> isNaN_Number (js ''39'')
   \<and> fst (handleChange 4 [js ''1'', js ''2'', js ''3'', js ''4''] 2 (js ''39'')) ! 2 = js ''9''"
proof -
  have h: "\<not> isNaN_Number (js ''39'')"
    by code_simp
  from effective_value_is_last_character
    [OF h, of 4 "[js ''1'', js ''2'', js ''3'', js ''4'']" 2] h
  show ?thesis by (simp add: js_def)
qed

text \<open>
  C1. On an accepted value change, the slots are joined in order after the write, and
  the completion callback is invoked, with the joined string, exactly when the joined
  string has \<open>len\<close> code units; in a state of the component that is exactly when
  no slot is empty. The check runs on every accepted change, so editing slot 2 of
  \<open>1, 2, 3, 4\<close> to \<open>9\<close> invokes the callback with \<open>1294\<close>.
\<close>

theorem complete_sequence_submits:
  assumes "\<not> isNaN_Number v" and "slots_inv len otp" and "index < len"
  shows "fst (handleChange len otp index v) = otp[index := substring v (int (length v) - 1)]
       \<and> filter is_OnOtpSubmit (snd (handleChange len otp index v)) =
           (if length (join (fst (handleChange len otp index v))) = len
            then [OnOtpSubmit (join (fst (handleChange len otp index v)))] else [])
       \<and> (length (join (fst (handleChange len otp index v))) = len
            \<longleftrightarrow> list_all (\<lambda>s. s \<noteq> []) (fst (handleChange len otp index v)))"
proof -
  from assms(2,3) have lt: "index < length otp"
    by (simp add: slots_inv_def)
  have w: "fst (handleChange len otp index v) = otp[index := substring v (int (length v) - 1)]"
    using assms(1) lt by (simp add: handleChange_def Let_def array_set_in_range)
  have c: "filter is_OnOtpSubmit (snd (handleChange len otp index v)) =
           (if length (join (fst (handleChange len otp index v))) = len
            then [OnOtpSubmit (join (fst (handleChange len otp index v)))] else [])"
    using assms(1) by (simp add: handleChange_def Let_def focus_ref_def)
  from slots_inv_handleChange [OF assms(2) lt, of v]
  have inv: "slots_inv len (fst (handleChange len otp index v))" .
  then have l: "length (fst (handleChange len otp index v)) = len"
    and a: "list_all (\<lambda>s. length s \<le> 1) (fst (handleChange len otp index v))"
    by (simp_all add: slots_inv_def)
  from concat_full_iff [OF a] l
  have f: "length (join (fst (handleChange len otp index v))) = len
            \<longleftrightarrow> list_all (\<lambda>s. s \<noteq> []) (fst (handleChange len otp index v))"
    by (simp add: join_def)
  from w c f show ?thesis by blast
qed

theorem complete_sequence_submits_witness:
  "\<not> isNaN_Number (js ''9'')
   \<and> slots_inv 4 [js ''1'', js ''2'', js ''3'', js ''4'']
   \<and> (2::nat) < 4
   \<and> fst (handleChange 4 [js ''1'', js ''2'', js ''3'', js ''4''] 2 (js ''9''))
       = [js ''1'', js ''2'', js ''9'', js ''4'']
   \<and> filter is_OnOtpSubmit
        (snd (handleChange 4 [js ''1'', js ''2'', js ''3'', js ''4''] 2 (js ''9'')))
       = [OnOtpSubmit (js ''1294'')]"
proof -
  have h1: "\<not> isNaN_Number (js ''9'')"
    by code_simp
  have h2: "slots_inv 4 [js ''1'', js ''2'', js ''3'', js ''4'']"
    by (simp add: slots_inv_def js_def)
  have h3: "(2::nat) < 4"
    by simp
  have w: "fst (handleChange 4 [js ''1'', js ''2'', js ''3'', js ''4''] 2 (js ''9''))
             = [js ''1'', js ''2'', js ''9'', js ''4'']"
    by code_simp
  have j: "join [js ''1'', js ''2'', js ''9'', js ''4''] = js ''1294''"
    by (simp add: join_def js_def)
  from complete_sequence_submits [OF h1 h2 h3]
  have "filter is_OnOtpSubmit
          (snd (handleChange 4 [js ''1'', js ''2'', js ''3'', js ''4''] 2 (js ''9''))) =
        (if length (join (fst (handleChange 4 [js ''1'', js ''2'', js ''3'', js ''4''] 2
                                 (js ''9'')))) = 4
         then [OnOtpSubmit (join (fst (handleChange 4 [js ''1'', js ''2'', js ''3'', js ''4'']
                                         2 (js ''9''))))]
         else [])"
    by blast
  then have "filter is_OnOtpSubmit
          (snd (handleChange 4 [js ''1'', js ''2'', js ''3'', js ''4''] 2 (js ''9'')))
        = [OnOtpSubmit (js ''1294'')]"
    unfolding w j by (simp add: js_def)
  with h1 h2 w show ?thesis
    by simp
qed

text \<open>
  C5. On an accepted value change at slot \<open>index\<close>: when the effective value is not
  empty and the slot is not the last one, focus moves to slot \<open>index + 1\<close> (on the
  last slot it does not move); when the effective value is empty and the slot is not
  the first one, focus moves to slot \<open>index - 1\<close>.
\<close>

theorem change_moves_focus:
  assumes "\<not> isNaN_Number v" and "length otp = len" and "index < len"
  shows "filter is_Focus (snd (handleChange len otp index v)) =
           (if substring v (int (length v) - 1) \<noteq> [] \<and> index < len - 1
              then [Focus (index + 1)]
            else if substring v (int (length v) - 1) = [] \<and> 0 < index
              then [Focus (index - 1)]
            else [])"
proof -
  have e: "substring v (int (length v) - 1) = [] \<longleftrightarrow> v = []"
    by (simp add: substring_last)
  have a: "int index < int len - 1 \<longleftrightarrow> index < len - 1"
    using assms(3) by auto
  show ?thesis
    using assms unfolding e
    by (auto simp: handleChange_def Let_def focus_ref_def a)
qed

theorem change_moves_focus_witness:
  "\<not> isNaN_Number (js ''7'') \<and> \<not> isNaN_Number []
   \<and> length (initial_otp 4) = 4
   \<and> filter is_Focus (snd (handleChange 4 (initial_otp 4) 1 (js ''7''))) = [Focus 2]
   \<and> filter is_Focus (snd (handleChange 4 (initial_otp 4) 3 (js ''7''))) = []
   \<and> filter is_Focus (snd (handleChange 4 (initial_otp 4) 1 [])) = [Focus 0]
   \<and> filter is_Focus (snd (handleChange 4 (initial_otp 4) 0 [])) = []"
proof -
  have h1: "\<not> isNaN_Number (js ''7'')"
    by code_simp
  have h0: "\<not> isNaN_Number []"
    by code_simp
  have h2: "length (initial_otp 4) = 4"
    by (simp add: initial_otp_def)
  have s: "substring (js ''7'') (int (length (js ''7'')) - 1) = js ''7''"
    by (simp add: substring_def js_def)
  have s0: "substring [] (int (length ([]::jsstring)) - 1) = []"
    by (simp add: substring_def)
  have n: "js ''7'' \<noteq> []"
    by (simp add: js_def)
  from change_moves_focus [OF h1 h2, of 1] change_moves_focus [OF h1 h2, of 3]
    change_moves_focus [OF h0 h2, of 1] change_moves_focus [OF h0 h2, of 0] h1 h0 h2
  show ?thesis
    unfolding s s0 using n by simp
qed

text \<open>
  C10. On a value change the two focus conditions exclude each other: the effective
  value is non-empty exactly when the raw text is, and the handler makes at most one
  focus call, never one to each neighbour.
\<close>

theorem change_focuses_at_most_once:
  "length (filter is_Focus (snd (handleChange len otp index v))) \<le> 1
   \<and> (substring v (int (length v) - 1) \<noteq> [] \<longleftrightarrow> v \<noteq> [])"
  by (simp add: handleChange_def Let_def focus_ref_def substring_last)

theorem change_focuses_at_most_once_witness:
  "length (filter is_Focus (snd (handleChange 4 (initial_otp 4) 1 (js ''7'')))) = 1
   \<and> length (filter is_Focus (snd (handleChange 4 (initial_otp 4) 1 (js ''x'')))) = 0"
proof -
  have n: "\<not> isNaN_Number (js ''7'')" and x: "isNaN_Number (js ''x'')"
    by code_simp+
  have "js ''7'' \<noteq> []"
    by (simp add: js_def)
  with change_focuses_at_most_once [of 4 "initial_otp 4" 1 "js ''7''"] n x
  show ?thesis
    by (simp add: handleChange_def Let_def focus_ref_def initial_otp_def)
qed

text \<open>
  C8. Frame condition: an event at slot \<open>index\<close> leaves the number of slots at
  \<open>len\<close> and every other slot as it was, whichever handler takes it; only an
  accepted value change writes, and only slot \<open>index\<close>.
\<close>

theorem only_the_changed_slot_is_written:
  assumes "length otp = len" and "event_index e < length otp"
  shows "length (fst (step len otp e)) = len
       \<and> (\<forall>j. j \<noteq> event_index e \<and> j < len \<longrightarrow> fst (step len otp e) ! j = otp ! j)"
proof (cases e)
  case (Change i v)
  with assms show ?thesis
    by (simp add: handleChange_def Let_def array_set_in_range)
next
  case (Click i)
  with assms show ?thesis by simp
next
  case (KeyDown i k)
  with assms show ?thesis by simp
qed

theorem only_the_changed_slot_is_written_witness:
  "length [js ''1'', js ''2'', js ''3'', js ''4''] = 4
   \<and> event_index (Change 2 (js ''9'')) < length [js ''1'', js ''2'', js ''3'', js ''4'']
   \<and> length (fst (step 4 [js ''1'', js ''2'', js ''3'', js ''4''] (Change 2 (js ''9'')))) = 4
   \<and> fst (step 4 [js ''1'', js ''2'', js ''3'', js ''4''] (Change 2 (js ''9''))) ! 3 = js ''4''"
proof -
  have h1: "length [js ''1'', js ''2'', js ''3'', js ''4''] = 4"
    by simp
  have h2: "event_index (Change 2 (js ''9'')) < length [js ''1'', js ''2'', js ''3'', js ''4'']"
    by simp
  from only_the_changed_slot_is_written [OF h1 h2]
  have "fst (step 4 [js ''1'', js ''2'', js ''3'', js ''4''] (Change 2 (js ''9''))) ! 3
          = [js ''1'', js ''2'', js ''3'', js ''4''] ! 3"
    by simp
  with only_the_changed_slot_is_written [OF h1 h2] show ?thesis
    by simp
qed

section \<open>The click handler\<close>

lemma handleClick_guard:
  assumes "index < length otp" and "0 < index" and "otp ! (index - 1) = []"
  shows "findIndex (\<lambda>val. val = []) otp \<noteq> - 1
       \<and> nat (findIndex (\<lambda>val. val = []) otp) \<le> index - 1
       \<and> handleClick otp index =
           [SetSelectionRange index 1 1, Focus (nat (findIndex (\<lambda>val. val = []) otp))]"
proof -
  from assms(1,2) have lt: "index - 1 < length otp"
    by arith
  from findIndex_upper [of "index - 1" otp "\<lambda>val. val = []", OF lt assms(3)]
  have ne: "findIndex (\<lambda>val. val = []) otp \<noteq> - 1"
    and le: "nat (findIndex (\<lambda>val. val = []) otp) \<le> index - 1"
    by simp_all
  from le lt have "nat (findIndex (\<lambda>val. val = []) otp) < length otp"
    by arith
  with assms lt ne have "handleClick otp index =
      [SetSelectionRange index 1 1, Focus (nat (findIndex (\<lambda>val. val = []) otp))]"
    by (simp add: handleClick_def select_ref_def focus_ref_def falsy_at_def Let_def)
  with ne le show ?thesis by simp
qed

text \<open>
  C6. A click at slot \<open>index\<close>: when the slot is not the first one and the slot
  before it is empty, focus moves to the first empty slot, counted from slot 0;
  otherwise the handler makes no focus call and focus stays on the clicked slot. With
  the slots \<open>1, 2, empty, 4\<close>, a click at slot 3 moves focus to slot 2.
\<close>

theorem click_redirects_to_first_empty:
  assumes "index < length otp"
  shows "(0 < index \<and> otp ! (index - 1) = [] \<longrightarrow>
            (\<exists>k. handleClick otp index = [SetSelectionRange index 1 1, Focus k]
                 \<and> focus_after (Some index) (handleClick otp index) = Some k
                 \<and> k < length otp \<and> otp ! k = [] \<and> (\<forall>j<k. otp ! j \<noteq> [])))
       \<and> (index = 0 \<or> otp ! (index - 1) \<noteq> [] \<longrightarrow>
            handleClick otp index = [SetSelectionRange index 1 1]
            \<and> focus_after (Some index) (handleClick otp index) = Some index)"
proof (intro conjI impI)
  assume g: "0 < index \<and> otp ! (index - 1) = []"
  let ?k = "nat (findIndex (\<lambda>val. val = []) otp)"
  from handleClick_guard [OF assms] g
  have ne: "findIndex (\<lambda>val. val = []) otp \<noteq> - 1"
    and c: "handleClick otp index = [SetSelectionRange index 1 1, Focus ?k]"
    by simp_all
  from findIndex_first [OF ne]
  have "?k < length otp" and "otp ! ?k = []" and "\<forall>j<?k. otp ! j \<noteq> []"
    by simp_all
  with c show "\<exists>k. handleClick otp index = [SetSelectionRange index 1 1, Focus k]
                 \<and> focus_after (Some index) (handleClick otp index) = Some k
                 \<and> k < length otp \<and> otp ! k = [] \<and> (\<forall>j<k. otp ! j \<noteq> [])"
    by simp
next
  assume "index = 0 \<or> otp ! (index - 1) \<noteq> []"
  with assms have c: "handleClick otp index = [SetSelectionRange index 1 1]"
    by (auto simp: handleClick_def select_ref_def falsy_at_def)
  then show "handleClick otp index = [SetSelectionRange index 1 1]" .
  from c show "focus_after (Some index) (handleClick otp index) = Some index"
    by simp
qed

theorem click_redirects_to_first_empty_witness:
  "(3::nat) < length [js ''1'', js ''2'', [], js ''4'']
   \<and> [js ''1'', js ''2'', [], js ''4''] ! (3 - 1) = []
   \<and> handleClick [js ''1'', js ''2'', [], js ''4''] 3 = [SetSelectionRange 3 1 1, Focus 2]
   \<and> handleClick [js ''1'', js ''2'', [], js ''4''] 2 = [SetSelectionRange 2 1 1]"
proof -
  have h: "(3::nat) < length [js ''1'', js ''2'', [], js ''4'']"
    by simp
  have h': "(2::nat) < length [js ''1'', js ''2'', [], js ''4'']"
    by simp
  have e: "[js ''1'', js ''2'', [], js ''4''] ! (3 - 1) = []"
    by simp
  have n: "[js ''1'', js ''2'', [], js ''4''] ! (2 - 1) \<noteq> []"
    by (simp add: js_def)
  from click_redirects_to_first_empty [OF h] e
  obtain k where c: "handleClick [js ''1'', js ''2'', [], js ''4''] 3
        = [SetSelectionRange 3 1 1, Focus k]"
    and k: "k < length [js ''1'', js ''2'', [], js ''4'']"
      "[js ''1'', js ''2'', [], js ''4''] ! k = []"
    by auto
  from k have "k = 2"
    by (auto simp: js_def less_Suc_eq numeral_eq_Suc)
  with c have c3: "handleClick [js ''1'', js ''2'', [], js ''4''] 3
        = [SetSelectionRange 3 1 1, Focus 2]"
    by simp
  from click_redirects_to_first_empty [OF h'] n
  have c2: "handleClick [js ''1'', js ''2'', [], js ''4''] 2 = [SetSelectionRange 2 1 1]"
    by simp
  from h e c3 c2 show ?thesis by simp
qed

text \<open>
  C9. In the click handler, under its guard (the slot is not the first one and the
  slot before it is empty), the search for the first empty slot succeeds: the index
  found is not \<open>-1\<close> and is at most \<open>index - 1\<close>, so the branch for "no empty slot"
  is never taken and the click always moves focus, to a slot before the clicked one.
\<close>

theorem click_search_always_succeeds:
  assumes "index < length otp" and "0 < index" and "otp ! (index - 1) = []"
  shows "findIndex (\<lambda>val. val = []) otp \<noteq> - 1
       \<and> 0 \<le> findIndex (\<lambda>val. val = []) otp
       \<and> findIndex (\<lambda>val. val = []) otp \<le> int index - 1
       \<and> handleClick otp index =
           [SetSelectionRange index 1 1, Focus (nat (findIndex (\<lambda>val. val = []) otp))]
       \<and> nat (findIndex (\<lambda>val. val = []) otp) < index"
proof -
  from handleClick_guard [OF assms]
  have ne: "findIndex (\<lambda>val. val = []) otp \<noteq> - 1"
    and le: "nat (findIndex (\<lambda>val. val = []) otp) \<le> index - 1"
    and c: "handleClick otp index =
           [SetSelectionRange index 1 1, Focus (nat (findIndex (\<lambda>val. val = []) otp))]"
    by simp_all
  from findIndex_lower [of "\<lambda>val. val = []" otp] ne
  have ge: "0 \<le> findIndex (\<lambda>val. val = []) otp"
    by arith
  from ge le assms(2) have u: "findIndex (\<lambda>val. val = []) otp \<le> int index - 1"
    by arith
  from le assms(2) have "nat (findIndex (\<lambda>val. val = []) otp) < index"
    by arith
  with ne ge u c show ?thesis by simp
qed

theorem click_search_always_succeeds_witness:
  "(3::nat) < length [js ''1'', [], [], js ''4''] \<and> (0::nat) < 3
   \<and> [js ''1'', [], [], js ''4''] ! (3 - 1) = []
   \<and> findIndex (\<lambda>val. val = []) [js ''1'', [], [], js ''4''] = 1
   \<and> handleClick [js ''1'', [], [], js ''4''] 3 = [SetSelectionRange 3 1 1, Focus 1]"
proof -
  have h1: "(3::nat) < length [js ''1'', [], [], js ''4'']"
    by simp
  have h2: "(0::nat) < 3"
    by simp
  have h3: "[js ''1'', [], [], js ''4''] ! (3 - 1) = []"
    by simp
  have f: "findIndex (\<lambda>val. val = []) [js ''1'', [], [], js ''4''] = 1"
    by (simp add: js_def)
  from click_search_always_succeeds [OF h1 h2 h3] h1 h3 f
  show ?thesis by simp
qed

section \<open>The key-down handler\<close>

text \<open>
  C7. A key-down at slot \<open>index\<close>: when the key is Backspace, the slot is empty and
  it is not the first slot, focus moves to slot \<open>index - 1\<close>; for any other key, a
  non-empty slot or the first slot, the handler makes no call, and it never changes
  the slots.
\<close>

theorem backspace_on_empty_slot_steps_back:
  assumes "index < length otp"
  shows "step len otp (KeyDown index key) =
           (otp, if key = js ''Backspace'' \<and> otp ! index = [] \<and> 0 < index
                 then [Focus (index - 1)] else [])"
proof -
  from assms have "index - 1 < length otp"
    by arith
  with assms show ?thesis
    by (simp add: handleKeyDown_def falsy_at_def focus_ref_def)
qed

theorem backspace_on_empty_slot_steps_back_witness:
  "(2::nat) < length [js ''1'', js ''2'', [], []]
   \<and> step 4 [js ''1'', js ''2'', [], []] (KeyDown 2 (js ''Backspace''))
       = ([js ''1'', js ''2'', [], []], [Focus 1])
   \<and> step 4 [js ''1'', js ''2'', [], []] (KeyDown 1 (js ''Backspace''))
       = ([js ''1'', js ''2'', [], []], [])
   \<and> step 4 [js ''1'', js ''2'', [], []] (KeyDown 2 (js ''Delete''))
       = ([js ''1'', js ''2'', [], []], [])"
proof -
  have h2: "(2::nat) < length [js ''1'', js ''2'', [], []]"
    and h1: "(1::nat) < length [js ''1'', js ''2'', [], []]"
    by simp_all
  from backspace_on_empty_slot_steps_back [OF h2, of 4 "js ''Backspace''"]
    backspace_on_empty_slot_steps_back [OF h1, of 4 "js ''Backspace''"]
    backspace_on_empty_slot_steps_back [OF h2, of 4 "js ''Delete''"]
  show ?thesis
    by (simp add: js_def)
qed

section \<open>Texts that are not digits and are accepted all the same\<close>

text \<open>
  C2. A value change whose text is not numeric should be discarded: slots unchanged,
  no call of the completion callback, no move of focus. The handler discards a text
  only when \<^verbatim>\<open>Number\<close> gives NaN on it, and \<^verbatim>\<open>Number\<close> reads more than digits. A
  single space is not a numeric text, yet typed into the empty slot 2 of
  \<open>1, 2, empty, empty\<close> it is written into the slot and focus moves to slot 3; typed
  into the last slot of \<open>1, empty\<close> it completes the sequence and the callback is
  called with a digit and a space. The same holds of \<open>0x1F\<close> and of \<open>Infinity\<close>,
  whose last characters \<open>F\<close> and \<open>y\<close> end up in the slot. A letter alone is
  discarded, as it should be.
\<close>

theorem non_digit_text_is_accepted:
  "numeric_text (js '' '') = False
   \<and> step 4 [js ''1'', js ''2'', [], []] (Change 2 (js '' ''))
       = ([js ''1'', js ''2'', js '' '', []], [Focus 3])
   \<and> step 2 [js ''1'', []] (Change 1 (js '' ''))
       = ([js ''1'', js '' ''], [OnOtpSubmit (js ''1 '')])
   \<and> numeric_text (js ''0x1F'') = False
   \<and> step 4 [js ''1'', js ''2'', [], []] (Change 2 (js ''0x1F''))
       = ([js ''1'', js ''2'', js ''F'', []], [Focus 3])
   \<and> numeric_text (js ''Infinity'') = False
   \<and> step 4 [js ''1'', js ''2'', [], []] (Change 2 (js ''Infinity''))
       = ([js ''1'', js ''2'', js ''y'', []], [Focus 3])
   \<and> numeric_text (js ''a'') = False
   \<and> step 4 [js ''1'', js ''2'', [], []] (Change 2 (js ''a''))
       = ([js ''1'', js ''2'', [], []], [])"
  by code_simp

section \<open>The slots are not always digits\<close>

text \<open>
  C3. The data model asks that every slot is empty or one decimal digit. The test of
  \<^verbatim>\<open>handleChange\<close> does not keep that: \<^verbatim>\<open>Number\<close> skips white space, so from the
  initial state of four empty slots a change of slot 0 to a single space is accepted
  and the space is written into the slot; and it reads \<open>5.\<close> as a number, so typing
  a point after the digit of a slot leaves the point in the slot.
\<close>

theorem space_is_written_into_a_slot:
  "step 4 (initial_otp 4) (Change 0 (js '' '')) = ([js '' '', [], [], []], [Focus 1])
   \<and> slot_ok (js '' '') = False
   \<and> fst (step 4 [js ''5'', [], [], []] (Change 0 (js ''5.''))) = [js ''.'', [], [], []]
   \<and> slot_ok (js ''.'') = False"
  by code_simp

end
